theory Spec2Isabelle
  imports Main "HOL-Library.AList"
begin

section \<open>JavaScript values\<close>

text \<open>
  The field-value resolution engine of \<^verbatim>\<open>src/mappingLoader.js\<close> works on
  dynamically typed data: a mapping definition parsed from JSON and a context built by
  the caller. The values of the model are \<^verbatim>\<open>undefined\<close>, \<^verbatim>\<open>null\<close>,
  booleans, numbers, strings, arrays, plain objects and \<^verbatim>\<open>Date\<close> objects.

  \<^item> Numbers are the integer-valued numbers (\<open>int\<close>), printed in decimal; fractions,
    NaN and the infinities are outside the model.
  \<^item> Strings are character lists; case mapping and whitespace are those of the ASCII
    range.
  \<^item> An array, an object and a date carry the identity of the object (a \<open>nat\<close>),
    which is all that \<^verbatim>\<open>===\<close> compares on objects.
  \<^item> An object is the list of its own enumerable properties in the order in which
    \<^verbatim>\<open>Object.entries\<close> lists them; a property read is \<open>map_of\<close>. Properties
    inherited from \<^verbatim>\<open>Object.prototype\<close> are not modelled, and no object overrides
    \<^verbatim>\<open>toString\<close>: the string form of an object is \<^verbatim>\<open>[object Object]\<close>.
  \<^item> A date holds its time value in milliseconds, \<open>None\<close> for an invalid date.
\<close>

datatype jsval =
    JUndefined
  | JNull
  | JBool bool
  | JNum int
  | JStr string
  | JArr nat "jsval list"
  | JObj nat "(string \<times> jsval) list"
  | JDate nat "int option"

text \<open>
  The code throws one error of its own, \<^verbatim>\<open>Error('Mapping config must be an object.')\<close>;
  every other failure is a \<^verbatim>\<open>TypeError\<close> of the runtime (a method call on a value
  that has no such method).
\<close>

datatype js_error = ConfigError | TypeError

type_synonym 'a result = "js_error + 'a"

text \<open>
  What the runtime decides and the code does not: date parsing and the local-time
  calendar fields of a time value, and the string form of a \<^verbatim>\<open>Date\<close>.
\<close>

record host =
  dateParse :: "string \<Rightarrow> int option"
  getDate :: "int \<Rightarrow> int"
  getMonth :: "int \<Rightarrow> int"
  getFullYear :: "int \<Rightarrow> int"
  dateToString :: "int option \<Rightarrow> string"

subsection \<open>Operators\<close>

fun typeof :: "jsval \<Rightarrow> string" where
  "typeof JUndefined = ''undefined''"
| "typeof (JBool b) = ''boolean''"
| "typeof (JNum n) = ''number''"
| "typeof (JStr s) = ''string''"
| "typeof _ = ''object''"

fun truthy :: "jsval \<Rightarrow> bool" where
  "truthy JUndefined = False"
| "truthy JNull = False"
| "truthy (JBool b) = b"
| "truthy (JNum n) = (n \<noteq> 0)"
| "truthy (JStr s) = (s \<noteq> [])"
| "truthy _ = True"

text \<open>\<^verbatim>\<open>a === b\<close>: identity on objects, equality of the values otherwise.\<close>

definition strict_eq :: "jsval \<Rightarrow> jsval \<Rightarrow> bool" where
  "strict_eq a b =
     (case (a, b) of
        (JArr r _, JArr r' _) \<Rightarrow> r = r'
      | (JObj r _, JObj r' _) \<Rightarrow> r = r'
      | (JDate r _, JDate r' _) \<Rightarrow> r = r'
      | _ \<Rightarrow> a = b)"

text \<open>\<^verbatim>\<open>a ?? b\<close>\<close>

definition coalesce :: "jsval \<Rightarrow> jsval \<Rightarrow> jsval" where
  "coalesce a b = (if a = JUndefined \<or> a = JNull then b else a)"

subsection \<open>Strings\<close>

definition digit :: "nat \<Rightarrow> char" where
  "digit n = ''0123456789'' ! n"

function dec :: "nat \<Rightarrow> string" where
  "dec n = (if n < 10 then [digit n] else dec (n div 10) @ [digit (n mod 10)])"
  by pat_completeness auto
termination
  by (relation "measure id") auto

declare dec.simps [simp del]

definition dec_int :: "int \<Rightarrow> string" where
  "dec_int n = (if n < 0 then CHR ''-'' # dec (nat (- n)) else dec (nat n))"

definition toLowerCase :: "string \<Rightarrow> string" where
  "toLowerCase s =
     map (\<lambda>c. case map_of (zip ''ABCDEFGHIJKLMNOPQRSTUVWXYZ'' ''abcdefghijklmnopqrstuvwxyz'') c of
                 Some l \<Rightarrow> l | None \<Rightarrow> c) s"

definition toUpperCase :: "string \<Rightarrow> string" where
  "toUpperCase s =
     map (\<lambda>c. case map_of (zip ''abcdefghijklmnopqrstuvwxyz'' ''ABCDEFGHIJKLMNOPQRSTUVWXYZ'') c of
                 Some u \<Rightarrow> u | None \<Rightarrow> c) s"

definition is_space :: "char \<Rightarrow> bool" where
  "is_space c \<longleftrightarrow> c \<in> set [CHR 0x09, CHR 0x0A, CHR 0x0B, CHR 0x0C, CHR 0x0D, CHR '' '']"

definition trim :: "string \<Rightarrow> string" where
  "trim s = rev (dropWhile is_space (rev (dropWhile is_space s)))"

definition padStart2 :: "string \<Rightarrow> string" where
  "padStart2 s = replicate (2 - length s) CHR ''0'' @ s"

text \<open>\<^verbatim>\<open>xs.join(sep)\<close> on strings.\<close>

fun join_strings :: "string \<Rightarrow> string list \<Rightarrow> string" where
  "join_strings sep [] = []"
| "join_strings sep [x] = x"
| "join_strings sep (x # y # ys) = x @ sep @ join_strings sep (y # ys)"

text \<open>\<^verbatim>\<open>s.split('.')\<close>: the empty string splits into one empty segment.\<close>

fun split_dot :: "string \<Rightarrow> string list" where
  "split_dot [] = [[]]"
| "split_dot (c # cs) =
     (if c = CHR ''.'' then [] # split_dot cs
      else (case split_dot cs of
              seg # segs \<Rightarrow> (c # seg) # segs
            | [] \<Rightarrow> [[c]]))"

text \<open>
  The string form of a value (\<^verbatim>\<open>String(v)\<close>, a template literal, a property key, an
  element of \<^verbatim>\<open>join\<close>). An array joins its elements with a comma, \<^verbatim>\<open>null\<close>
  and \<^verbatim>\<open>undefined\<close> elements as the empty string.
\<close>

fun to_string :: "host \<Rightarrow> jsval \<Rightarrow> string" where
  "to_string h JUndefined = ''undefined''"
| "to_string h JNull = ''null''"
| "to_string h (JBool b) = (if b then ''true'' else ''false'')"
| "to_string h (JNum n) = dec_int n"
| "to_string h (JStr s) = s"
| "to_string h (JArr r xs) =
     join_strings '',''
       (map (\<lambda>x. if x = JUndefined \<or> x = JNull then [] else to_string h x) xs)"
| "to_string h (JObj r kvs) = ''[object Object]''"
| "to_string h (JDate r t) = dateToString h t"

subsection \<open>Properties\<close>

text \<open>The index that a property key names in a sequence of length \<open>n\<close>, if any.\<close>

definition index_of_key :: "nat \<Rightarrow> string \<Rightarrow> nat option" where
  "index_of_key n k = List.find (\<lambda>i. dec i = k) [0..<n]"

text \<open>
  \<^verbatim>\<open>Object.prototype.hasOwnProperty.call(v, k)\<close> together with the read
  \<^verbatim>\<open>v[k]\<close>: an object has its listed properties, an array and a string have
  \<^verbatim>\<open>length\<close> and their indices, other values have no own property.
\<close>

fun own_prop :: "jsval \<Rightarrow> string \<Rightarrow> jsval option" where
  "own_prop (JObj r kvs) k = map_of kvs k"
| "own_prop (JArr r xs) k =
     (if k = ''length'' then Some (JNum (int (length xs)))
      else map_option (\<lambda>i. xs ! i) (index_of_key (length xs) k))"
| "own_prop (JStr s) k =
     (if k = ''length'' then Some (JNum (int (length s)))
      else map_option (\<lambda>i. JStr [s ! i]) (index_of_key (length s) k))"
| "own_prop _ k = None"

text \<open>The read \<^verbatim>\<open>v.k\<close> of a value that is neither null nor undefined.\<close>

definition get_prop :: "jsval \<Rightarrow> string \<Rightarrow> jsval" where
  "get_prop v k = (case own_prop v k of Some x \<Rightarrow> x | None \<Rightarrow> JUndefined)"

text \<open>\<^verbatim>\<open>Object.entries(v)\<close>\<close>

fun entries_of :: "jsval \<Rightarrow> (string \<times> jsval) list" where
  "entries_of (JObj r kvs) = kvs"
| "entries_of (JArr r xs) = zip (map dec [0..<length xs]) xs"
| "entries_of (JStr s) = zip (map dec [0..<length s]) (map (\<lambda>c. JStr [c]) s)"
| "entries_of _ = []"

text \<open>\<^verbatim>\<open>Object.fromEntries(kvs)\<close>: a later pair overwrites an earlier one with its key.\<close>

definition fromEntries :: "(string \<times> jsval) list \<Rightarrow> (string \<times> jsval) list" where
  "fromEntries kvs = foldl (\<lambda>obj (k, v). AList.update k v obj) [] kvs"

section \<open>The resolution engine\<close>

subsection \<open>getPathValue\<close>

text \<open>
  The loop over the segments: a step needs a truthy current value that has the segment
  as an own property; otherwise the lookup returns \<^verbatim>\<open>undefined\<close>.
\<close>

fun walk :: "jsval \<Rightarrow> string list \<Rightarrow> jsval" where
  "walk current [] = current"
| "walk current (segment # segments) =
     (if truthy current then
        (case own_prop current segment of
           Some v \<Rightarrow> walk v segments
         | None \<Rightarrow> JUndefined)
      else JUndefined)"

text \<open>
  A truthy path expression that is not a string has no \<^verbatim>\<open>split\<close> method: the call
  is a \<^verbatim>\<open>TypeError\<close>.
\<close>

definition getPathValue :: "jsval \<Rightarrow> jsval \<Rightarrow> jsval result" where
  "getPathValue source pathExpression =
     (if \<not> truthy source \<or> \<not> truthy pathExpression then Inr JUndefined
      else (case pathExpression of
              JStr s \<Rightarrow> Inr (walk source (split_dot s))
            | _ \<Rightarrow> Inl TypeError))"

subsection \<open>formatValue and formatDate\<close>

text \<open>
  The time value of \<^verbatim>\<open>value instanceof Date ? value : new Date(value)\<close> (line 184),
  \<open>None\<close> when \<^verbatim>\<open>getTime()\<close> is NaN: a date has its own, a string is parsed,
  an array or an object is parsed in its string form, other primitives are converted to
  a number, which is a time value within the range of dates.
\<close>

definition time_clip :: "int \<Rightarrow> int option" where
  "time_clip n = (if \<bar>n\<bar> \<le> 8640000000000000 then Some n else None)"

fun to_time :: "host \<Rightarrow> jsval \<Rightarrow> int option" where
  "to_time h JUndefined = None"
| "to_time h JNull = Some 0"
| "to_time h (JBool b) = Some (if b then 1 else 0)"
| "to_time h (JNum n) = time_clip n"
| "to_time h (JStr s) = dateParse h s"
| "to_time h (JDate r t) = t"
| "to_time h v = dateParse h (to_string h v)"

text \<open>\<^verbatim>\<open>pattern.replace(/DD|MM|YYYY/g, (match) => components[match])\<close>\<close>

function replace_components :: "string \<Rightarrow> string \<Rightarrow> string \<Rightarrow> string \<Rightarrow> string" where
  "replace_components dd mm yyyy pattern =
     (if take 2 pattern = ''DD'' then dd @ replace_components dd mm yyyy (drop 2 pattern)
      else if take 2 pattern = ''MM'' then mm @ replace_components dd mm yyyy (drop 2 pattern)
      else if take 4 pattern = ''YYYY'' then yyyy @ replace_components dd mm yyyy (drop 4 pattern)
      else (case pattern of
              [] \<Rightarrow> []
            | c # cs \<Rightarrow> c # replace_components dd mm yyyy cs))"
  by pat_completeness auto
termination
  by (relation "measure (\<lambda>(dd, mm, yyyy, pattern). length pattern)") (auto intro!: diff_less)

declare replace_components.simps [simp del]

definition formatDate :: "host \<Rightarrow> jsval \<Rightarrow> string \<Rightarrow> jsval" where
  "formatDate h value pattern =
     (case to_time h value of
        None \<Rightarrow> value
      | Some t \<Rightarrow>
          JStr (replace_components
                  (padStart2 (dec_int (getDate h t)))
                  (padStart2 (dec_int (getMonth h t + 1)))
                  (dec_int (getFullYear h t))
                  pattern))"

definition formatValue :: "host \<Rightarrow> jsval \<Rightarrow> jsval \<Rightarrow> jsval" where
  "formatValue h value format =
     (if value = JUndefined \<or> value = JNull \<or> value = JStr [] then value
      else if format = JStr ''DATE_DDMMYYYY'' then formatDate h value ''DD.MM.YYYY''
      else if format = JStr ''DATE_ISO'' then formatDate h value ''YYYY-MM-DD''
      else value)"

subsection \<open>buildFromPaths\<close>

text \<open>A callback that may throw, mapped over a list: the first error ends the map.\<close>

fun map_result :: "('a \<Rightarrow> 'b result) \<Rightarrow> 'a list \<Rightarrow> 'b list result" where
  "map_result f [] = Inr []"
| "map_result f (x # xs) =
     (case f x of
        Inl e \<Rightarrow> Inl e
      | Inr y \<Rightarrow> (case map_result f xs of Inl e \<Rightarrow> Inl e | Inr ys \<Rightarrow> Inr (y # ys)))"

text \<open>The callback of \<^verbatim>\<open>paths.map\<close> (lines 95 to 107).\<close>

definition pathDefValue :: "host \<Rightarrow> jsval \<Rightarrow> jsval \<Rightarrow> jsval result" where
  "pathDefValue h context pathDef =
     (if typeof pathDef = ''string'' then getPathValue context pathDef
      else if truthy pathDef \<and> typeof pathDef = ''object'' \<and> truthy (get_prop pathDef ''path'') then
        (case getPathValue context (get_prop pathDef ''path'') of
           Inl e \<Rightarrow> Inl e
         | Inr value \<Rightarrow>
             Inr (if truthy (get_prop pathDef ''format'')
                  then formatValue h value (get_prop pathDef ''format'')
                  else value))
      else Inr JNull)"

text \<open>
  The parameter \<open>joiner0\<close> is what the caller passes; \<^verbatim>\<open>undefined\<close> takes the
  default, a newline. Only an array has the \<^verbatim>\<open>map\<close> method that the first line
  calls.
\<close>

definition buildFromPaths :: "host \<Rightarrow> jsval \<Rightarrow> jsval \<Rightarrow> jsval \<Rightarrow> jsval result" where
  "buildFromPaths h paths joiner0 context =
     (let joiner = (if joiner0 = JUndefined then JStr [CHR 0x0A] else joiner0) in
      case paths of
        JArr r pathDefs \<Rightarrow>
          (case map_result (pathDefValue h context) pathDefs of
             Inl e \<Rightarrow> Inl e
           | Inr mapped \<Rightarrow>
               (let values = filter (\<lambda>value. value \<noteq> JUndefined \<and> value \<noteq> JNull \<and> value \<noteq> JStr []) mapped in
                if values = [] then Inr JNull
                else Inr (JStr (join_strings
                                  (if truthy joiner then to_string h joiner else [])
                                  (map (to_string h) values)))))
      | _ \<Rightarrow> Inl TypeError)"

subsection \<open>resolveCheckbox and resolveRadio\<close>

text \<open>\<^verbatim>\<open>truthyValues.map((v) => v.toLowerCase())\<close>: only a string has the method.\<close>

definition lowerValue :: "jsval \<Rightarrow> string result" where
  "lowerValue v = (case v of JStr s \<Rightarrow> Inr (toLowerCase s) | _ \<Rightarrow> Inl TypeError)"

definition resolveCheckbox :: "host \<Rightarrow> jsval \<Rightarrow> jsval \<Rightarrow> jsval result" where
  "resolveCheckbox h value entry =
     (if entry = JUndefined \<or> entry = JNull then Inl TypeError
      else if get_prop entry ''equals'' \<noteq> JUndefined then
        Inr (JBool (strict_eq value (get_prop entry ''equals'')))
      else if truthy (get_prop entry ''truthyValues'') \<and> value \<noteq> JUndefined \<and> value \<noteq> JNull then
        (let compareValue = toLowerCase (to_string h value) in
         case get_prop entry ''truthyValues'' of
           JArr r vs \<Rightarrow>
             (case map_result lowerValue vs of
                Inl e \<Rightarrow> Inl e
              | Inr lowered \<Rightarrow> Inr (JBool (compareValue \<in> set lowered)))
         | _ \<Rightarrow> Inl TypeError)
      else Inr (JBool (truthy value)))"

text \<open>
  The map with its keys lower-cased (lines 152 to 154), over \<^verbatim>\<open>entry.map || {}\<close>.
\<close>

definition normalizedMap :: "jsval \<Rightarrow> (string \<times> jsval) list" where
  "normalizedMap entry =
     fromEntries
       (map (\<lambda>(key, v). (toLowerCase key, v))
          (if truthy (get_prop entry ''map'') then entries_of (get_prop entry ''map'') else []))"

definition resolveRadio :: "host \<Rightarrow> jsval \<Rightarrow> jsval \<Rightarrow> jsval result" where
  "resolveRadio h value entry =
     (if entry = JUndefined \<or> entry = JNull then Inl TypeError
      else if value = JUndefined \<or> value = JNull then Inr (coalesce (get_prop entry ''default'') JNull)
      else
        (case (case value of
                 JStr s \<Rightarrow>
                   (if truthy (get_prop entry ''caseInsensitive'') then
                      (case map_of (normalizedMap entry) (toLowerCase s) of
                         Some found \<Rightarrow> (if truthy found then Some found else None)
                       | None \<Rightarrow> None)
                    else None)
               | _ \<Rightarrow> None) of
           Some found \<Rightarrow> Inr found
         | None \<Rightarrow>
             (if truthy (get_prop entry ''map'')
                 \<and> get_prop (get_prop entry ''map'') (to_string h value) \<noteq> JUndefined
              then Inr (get_prop (get_prop entry ''map'') (to_string h value))
              else Inr (coalesce (get_prop entry ''default'') value))))"

subsection \<open>resolveEntry\<close>

text \<open>The base value (lines 45 to 51).\<close>

definition baseValue :: "host \<Rightarrow> jsval \<Rightarrow> jsval \<Rightarrow> jsval result" where
  "baseValue h entry context =
     (if truthy (get_prop entry ''paths'') then
        buildFromPaths h (get_prop entry ''paths'') (get_prop entry ''join'') context
      else if truthy (get_prop entry ''path'') then
        getPathValue context (get_prop entry ''path'')
      else Inr JNull)"

text \<open>Format, prefix, suffix and trim, in this order (lines 53 to 67).\<close>

definition applyFormat :: "host \<Rightarrow> jsval \<Rightarrow> jsval \<Rightarrow> jsval" where
  "applyFormat h entry value =
     (if truthy (get_prop entry ''format'') then formatValue h value (get_prop entry ''format'')
      else value)"

definition applyPrefix :: "host \<Rightarrow> jsval \<Rightarrow> jsval \<Rightarrow> jsval" where
  "applyPrefix h entry value =
     (if truthy (get_prop entry ''prefix'') \<and> truthy value
      then JStr (to_string h (get_prop entry ''prefix'') @ to_string h value)
      else value)"

definition applySuffix :: "host \<Rightarrow> jsval \<Rightarrow> jsval \<Rightarrow> jsval" where
  "applySuffix h entry value =
     (if truthy (get_prop entry ''suffix'') \<and> truthy value
      then JStr (to_string h value @ to_string h (get_prop entry ''suffix''))
      else value)"

definition applyTrim :: "jsval \<Rightarrow> jsval \<Rightarrow> jsval" where
  "applyTrim entry value =
     (if get_prop entry ''trim'' \<noteq> JBool False then
        (case value of JStr s \<Rightarrow> JStr (trim s) | _ \<Rightarrow> value)
      else value)"

text \<open>Upper case, lower case and the default of an untyped entry (lines 78 to 90).\<close>

definition applyUppercase :: "jsval \<Rightarrow> jsval \<Rightarrow> jsval" where
  "applyUppercase entry value =
     (if truthy (get_prop entry ''uppercase'') then
        (case value of JStr s \<Rightarrow> JStr (toUpperCase s) | _ \<Rightarrow> value)
      else value)"

definition applyLowercase :: "jsval \<Rightarrow> jsval \<Rightarrow> jsval" where
  "applyLowercase entry value =
     (if truthy (get_prop entry ''lowercase'') then
        (case value of JStr s \<Rightarrow> JStr (toLowerCase s) | _ \<Rightarrow> value)
      else value)"

definition applyDefault :: "jsval \<Rightarrow> jsval \<Rightarrow> jsval" where
  "applyDefault entry value =
     (if (value = JUndefined \<or> value = JNull \<or> value = JStr [])
         \<and> get_prop entry ''default'' \<noteq> JUndefined
      then get_prop entry ''default''
      else value)"

definition resolveEntry :: "host \<Rightarrow> jsval \<Rightarrow> jsval \<Rightarrow> jsval result" where
  "resolveEntry h entry context =
     (if entry = JNull \<or> entry = JUndefined then Inr entry
      else if typeof entry = ''string'' then getPathValue context entry
      else if typeof entry \<noteq> ''object'' then Inr entry
      else if get_prop entry ''value'' \<noteq> JUndefined then Inr (get_prop entry ''value'')
      else
        (case baseValue h entry context of
           Inl e \<Rightarrow> Inl e
         | Inr value0 \<Rightarrow>
             (let value = applyTrim entry (applySuffix h entry (applyPrefix h entry (applyFormat h entry value0))) in
              if get_prop entry ''type'' = JStr ''checkbox'' then resolveCheckbox h value entry
              else if get_prop entry ''type'' = JStr ''radio'' then resolveRadio h value entry
              else Inr (applyDefault entry (applyLowercase entry (applyUppercase entry value))))))"

subsection \<open>buildFieldValues\<close>

text \<open>
  The loop over \<^verbatim>\<open>Object.entries(mappingConfig)\<close>, with the output object built so
  far; an exception of \<^verbatim>\<open>resolveEntry\<close> leaves the function, and no output is
  returned.
\<close>

fun build_loop :: "host \<Rightarrow> jsval \<Rightarrow> (string \<times> jsval) list \<Rightarrow> (string \<times> jsval) list
    \<Rightarrow> (string \<times> jsval) list result" where
  "build_loop h context [] output = Inr output"
| "build_loop h context ((fieldName, entry) # rest) output =
     (case resolveEntry h entry context of
        Inl e \<Rightarrow> Inl e
      | Inr value \<Rightarrow>
          build_loop h context rest
            (if value \<noteq> JUndefined \<and> value \<noteq> JNull
             then AList.update fieldName value output
             else output))"

definition buildFieldValues :: "host \<Rightarrow> jsval \<Rightarrow> jsval \<Rightarrow> (string \<times> jsval) list result" where
  "buildFieldValues h mappingConfig context =
     (if \<not> truthy mappingConfig \<or> typeof mappingConfig \<noteq> ''object'' then Inl ConfigError
      else build_loop h context (entries_of mappingConfig) [])"

section \<open>A sample runtime\<close>

text \<open>
  For the evaluation of the engine on concrete inputs: a runtime in UTC that parses
  ISO calendar dates (\<^verbatim>\<open>YYYY-MM-DD\<close>) and prints a date as its calendar date.
  The theorems below hold for every runtime; this one instantiates them.
\<close>

definition days_from_civil :: "int \<Rightarrow> int \<Rightarrow> int \<Rightarrow> int" where
  "days_from_civil y0 m d =
     (let y = (if m \<le> 2 then y0 - 1 else y0);
          era = y div 400;
          yoe = y - era * 400;
          doy = (153 * (if m > 2 then m - 3 else m + 9) + 2) div 5 + d - 1;
          doe = yoe * 365 + yoe div 4 - yoe div 100 + doy
      in era * 146097 + doe - 719468)"

definition civil_from_days :: "int \<Rightarrow> int \<times> int \<times> int" where
  "civil_from_days z0 =
     (let z = z0 + 719468;
          era = z div 146097;
          doe = z - era * 146097;
          yoe = (doe - doe div 1460 + doe div 36524 - doe div 146096) div 365;
          doy = doe - (365 * yoe + yoe div 4 - yoe div 100);
          mp = (5 * doy + 2) div 153;
          d = doy - (153 * mp + 2) div 5 + 1;
          m = (if mp < 10 then mp + 3 else mp - 9)
      in (if m \<le> 2 then yoe + era * 400 + 1 else yoe + era * 400, m, d))"

definition number_of :: "string \<Rightarrow> int option" where
  "number_of s =
     foldl (\<lambda>acc c. case (acc, map_of (zip ''0123456789'' [0 ..< 10]) c) of
                       (Some n, Some k) \<Rightarrow> Some (10 * n + int k)
                     | _ \<Rightarrow> None) (Some 0) s"

definition parse_iso_date :: "string \<Rightarrow> int option" where
  "parse_iso_date s =
     (if length s = 10 \<and> s ! 4 = CHR ''-'' \<and> s ! 7 = CHR ''-'' then
        (case (number_of (take 4 s), number_of (take 2 (drop 5 s)), number_of (drop 8 s)) of
           (Some y, Some m, Some d) \<Rightarrow>
             (if 1 \<le> m \<and> m \<le> 12 \<and> 1 \<le> d \<and> d \<le> 31
              then Some (days_from_civil y m d * 86400000) else None)
         | _ \<Rightarrow> None)
      else None)"

definition utc_host :: host where
  "utc_host =
     \<lparr> dateParse = parse_iso_date,
       getDate = (\<lambda>t. snd (snd (civil_from_days (t div 86400000)))),
       getMonth = (\<lambda>t. fst (snd (civil_from_days (t div 86400000))) - 1),
       getFullYear = (\<lambda>t. fst (civil_from_days (t div 86400000))),
       dateToString = (\<lambda>t. case t of
          None \<Rightarrow> ''Invalid Date''
        | Some t \<Rightarrow> (case civil_from_days (t div 86400000) of
            (y, m, d) \<Rightarrow> dec_int y @ ''-'' @ padStart2 (dec_int m) @ ''-'' @ padStart2 (dec_int d))) \<rparr>"

section \<open>Entries that resolve without a runtime error\<close>






section \<open>Properties of the engine\<close>

subsection \<open>Reading the keys of an entry\<close>

lemma get_prop_obj:
  "get_prop (JObj r kvs) k = (case map_of kvs k of Some x \<Rightarrow> x | None \<Rightarrow> JUndefined)"
  by (simp add: get_prop_def)

lemmas modifier_defs =
  applyFormat_def applyPrefix_def applySuffix_def applyTrim_def
  applyUppercase_def applyLowercase_def applyDefault_def

subsection \<open>Sample resolutions\<close>

text \<open>
  The model computes, under the sample runtime, the resolutions that the specification
  gives as scenarios: a joined name, the two date formats, a checkbox with truthy values
  and a default for a missing path.
\<close>

lemma scenario_join:
  "resolveEntry utc_host
     (JObj 0 [(''paths'', JArr 1 [JStr ''traveler.firstName'', JStr ''traveler.lastName'']),
              (''join'', JStr '' '')])
     (JObj 2 [(''traveler'', JObj 3 [(''firstName'', JStr ''Jane''), (''lastName'', JStr ''Doe'')])])
   = Inr (JStr ''Jane Doe'')"
  by code_simp

lemma scenario_date:
  "resolveEntry utc_host (JObj 0 [(''path'', JStr ''doc_date''), (''format'', JStr ''DATE_ISO'')])
     (JObj 1 [(''doc_date'', JStr ''2024-03-05'')])
   = Inr (JStr ''2024-03-05'')"
  "resolveEntry utc_host (JObj 0 [(''path'', JStr ''doc_date''), (''format'', JStr ''DATE_DDMMYYYY'')])
     (JObj 1 [(''doc_date'', JStr ''2024-03-05'')])
   = Inr (JStr ''05.03.2024'')"
  by code_simp+

lemma scenario_checkbox:
  "resolveEntry utc_host
     (JObj 0 [(''path'', JStr ''agree''), (''type'', JStr ''checkbox''),
              (''truthyValues'', JArr 1 [JStr ''yes'', JStr ''on''])])
     (JObj 2 [(''agree'', JStr ''YES'')])
   = Inr (JBool True)"
  "resolveEntry utc_host
     (JObj 0 [(''path'', JStr ''agree''), (''type'', JStr ''checkbox''),
              (''truthyValues'', JArr 1 [JStr ''yes'', JStr ''on''])])
     (JObj 2 [(''agree'', JStr ''no'')])
   = Inr (JBool False)"
  by code_simp+

lemma scenario_default:
  "resolveEntry utc_host (JObj 0 [(''path'', JStr ''missing.key''), (''default'', JStr ''N/A'')])
     (JObj 1 [(''present'', JNum 1)])
   = Inr (JStr ''N/A'')"
  by code_simp

subsection \<open>The errors of the engine\<close>













subsection \<open>The explicit value of an entry\<close>




subsection \<open>String entries and single-path entries\<close>




subsection \<open>The configuration error\<close>




subsection \<open>Checkboxes\<close>

lemma strict_eq_bool [simp]: "strict_eq (JBool a) (JBool b) \<longleftrightarrow> a = b"
  by (simp add: strict_eq_def)

lemma strict_eq_bool_str [simp]: "strict_eq (JBool a) (JStr s) = False"
  by (simp add: strict_eq_def)

lemma strict_eq_str [simp]: "strict_eq (JStr a) (JStr b) \<longleftrightarrow> a = b"
  by (simp add: strict_eq_def)

text \<open>
  C4. \<^verbatim>\<open>resolveCheckbox\<close> gives a boolean, and resolving that boolean again gives it
  back for the entries that coerce (no \<^verbatim>\<open>equals\<close>, no truthy \<^verbatim>\<open>truthyValues\<close>)
  and for \<^verbatim>\<open>equals: true\<close>. Under any other \<^verbatim>\<open>equals\<close> or under
  \<^verbatim>\<open>truthyValues\<close> the second resolution compares the boolean itself with the rule.
\<close>

theorem resolveCheckbox_idempotent:
  assumes "entry \<noteq> JUndefined" and "entry \<noteq> JNull"
    and "get_prop entry ''equals'' = JBool True
         \<or> get_prop entry ''equals'' = JUndefined \<and> \<not> truthy (get_prop entry ''truthyValues'')"
  shows "\<exists>b. resolveCheckbox h value entry = Inr (JBool b)
            \<and> resolveCheckbox h (JBool b) entry = Inr (JBool b)"
  using assms(3)
proof
  assume "get_prop entry ''equals'' = JBool True"
  with assms(1,2) show ?thesis by (simp add: resolveCheckbox_def)
next
  assume "get_prop entry ''equals'' = JUndefined \<and> \<not> truthy (get_prop entry ''truthyValues'')"
  with assms(1,2) show ?thesis by (simp add: resolveCheckbox_def)
qed

theorem resolveCheckbox_idempotent_witness:
  "\<exists>b. resolveCheckbox utc_host (JStr ''x'') (JObj 0 [(''type'', JStr ''checkbox'')]) = Inr (JBool b)
      \<and> resolveCheckbox utc_host (JBool b) (JObj 0 [(''type'', JStr ''checkbox'')]) = Inr (JBool b)"
  using resolveCheckbox_idempotent [of "JObj 0 [(''type'', JStr ''checkbox'')]" utc_host "JStr ''x''"]
  by (simp add: get_prop_obj)

text \<open>
  A checked box is unchecked by a second resolution, under \<^verbatim>\<open>equals\<close> and under
  \<^verbatim>\<open>truthyValues\<close>.
\<close>

theorem resolveCheckbox_not_idempotent:
  "resolveCheckbox utc_host (JStr ''yes'') (JObj 0 [(''equals'', JStr ''yes'')]) = Inr (JBool True)
   \<and> resolveCheckbox utc_host (JBool True) (JObj 0 [(''equals'', JStr ''yes'')]) = Inr (JBool False)
   \<and> resolveCheckbox utc_host (JStr ''YES'') (JObj 0 [(''truthyValues'', JArr 1 [JStr ''yes'', JStr ''on''])])
       = Inr (JBool True)
   \<and> resolveCheckbox utc_host (JBool True) (JObj 0 [(''truthyValues'', JArr 1 [JStr ''yes'', JStr ''on''])])
       = Inr (JBool False)"
  by (simp add: resolveCheckbox_def get_prop_obj lowerValue_def toLowerCase_def)

subsection \<open>The fields of the output\<close>





subsection \<open>Multi-path concatenation\<close>

lemma map_result_all_dropped:
  assumes "\<forall>p \<in> set ps. f p \<in> {Inr JUndefined, Inr JNull, Inr (JStr [])}"
  shows "\<exists>vs. map_result f ps = Inr vs
           \<and> filter (\<lambda>v. v \<noteq> JUndefined \<and> v \<noteq> JNull \<and> v \<noteq> JStr []) vs = []"
  using assms
proof (induction ps)
  case Nil
  then show ?case by simp
next
  case (Cons p ps)
  then obtain vs where vs: "map_result f ps = Inr vs"
      "filter (\<lambda>v. v \<noteq> JUndefined \<and> v \<noteq> JNull \<and> v \<noteq> JStr []) vs = []"
    by auto
  from Cons.prems have "f p = Inr JUndefined \<or> f p = Inr JNull \<or> f p = Inr (JStr [])"
    by simp
  with vs show ?case by auto
qed

text \<open>
  C6. When every path definition of the sequence resolves to \<^verbatim>\<open>null\<close>,
  \<^verbatim>\<open>undefined\<close> or the empty string (a sub-path missing from the context resolves to
  \<^verbatim>\<open>undefined\<close>), nothing remains after the filter and \<^verbatim>\<open>buildFromPaths\<close> returns
  \<^verbatim>\<open>null\<close>, not the empty string, whatever the joiner is.
\<close>

theorem buildFromPaths_nothing_remains:
  assumes "\<forall>pathDef \<in> set pathDefs.
             pathDefValue h context pathDef \<in> {Inr JUndefined, Inr JNull, Inr (JStr [])}"
  shows "buildFromPaths h (JArr r pathDefs) joiner context = Inr JNull"
proof -
  from map_result_all_dropped [OF assms] obtain vs
    where "map_result (pathDefValue h context) pathDefs = Inr vs"
      and "filter (\<lambda>v. v \<noteq> JUndefined \<and> v \<noteq> JNull \<and> v \<noteq> JStr []) vs = []"
    by blast
  then show ?thesis by (simp add: buildFromPaths_def)
qed

text \<open>A sub-path that is missing from the context is such a path definition.\<close>

lemma pathDefValue_missing:
  "walk context (split_dot s) = JUndefined \<Longrightarrow> pathDefValue h context (JStr s) = Inr JUndefined"
  by (simp add: pathDefValue_def getPathValue_def)

theorem buildFromPaths_nothing_remains_witness:
  "buildFromPaths utc_host
     (JArr 0 [JStr ''traveler.firstName'', JStr ''blank'', JObj 2 [(''path'', JStr ''traveler.born''), (''format'', JStr ''DATE_ISO'')], JNum 5])
     (JStr '' '') (JObj 1 [(''blank'', JStr []), (''traveler'', JObj 3 [(''born'', JNull)])]) = Inr JNull"
proof -
  let ?ctx = "JObj 1 [(''blank'', JStr []), (''traveler'', JObj 3 [(''born'', JNull)])]"
  have "pathDefValue utc_host ?ctx (JStr ''traveler.firstName'') = Inr JUndefined"
    "pathDefValue utc_host ?ctx (JStr ''blank'') = Inr (JStr [])"
    "pathDefValue utc_host ?ctx (JObj 2 [(''path'', JStr ''traveler.born''), (''format'', JStr ''DATE_ISO'')]) = Inr JNull"
    "pathDefValue utc_host ?ctx (JNum 5) = Inr JNull"
    by (simp_all add: pathDefValue_def getPathValue_def get_prop_obj formatValue_def)
  then show ?thesis
    by (intro buildFromPaths_nothing_remains) simp
qed

subsection \<open>Radio entries\<close>

lemma map_of_foldl_update:
  "map_of (foldl (\<lambda>obj (k, v). AList.update k v obj) acc kvs) = map_of acc ++ map_of (rev kvs)"
proof (induction kvs arbitrary: acc)
  case Nil
  then show ?case by simp
next
  case (Cons kv kvs)
  obtain k v where kv: "kv = (k, v)" by (cases kv)
  have "map_of (AList.update k v acc) ++ map_of (rev kvs)
      = map_of acc ++ (map_of [(k, v)] ++ map_of (rev kvs))"
    by (simp add: update_conv' map_add_upd_left fun_eq_iff map_add_def split: option.splits)
  with Cons.IH [of "AList.update k v acc"] show ?case
    unfolding kv by simp
qed

text \<open>On a collision of lower-cased keys the key iterated later wins.\<close>

lemma map_of_fromEntries: "map_of (fromEntries kvs) = map_of (rev kvs)"
  by (simp add: fromEntries_def map_of_foldl_update)

text \<open>
  The case-insensitive lookup returns what the lower-cased map holds at the lower-cased
  value when that is truthy, before any exact lookup.
\<close>

lemma resolveRadio_caseInsensitive_found:
  assumes "entry \<noteq> JUndefined" and "entry \<noteq> JNull"
    and "truthy (get_prop entry ''caseInsensitive'')"
    and "map_of (normalizedMap entry) (toLowerCase s) = Some found"
    and "truthy found"
  shows "resolveRadio h (JStr s) entry = Inr found"
  using assms by (simp add: resolveRadio_def)

lemma resolveRadio_examples:
  "resolveRadio h (JStr ''A'') (JObj r [(''type'', JStr ''radio''), (''map'', JObj r' [(''A'', JStr ''foo'')])])
     = Inr (JStr ''foo'')"
  "resolveRadio h (JStr ''a'')
     (JObj r [(''type'', JStr ''radio''), (''caseInsensitive'', JBool True),
              (''map'', JObj r' [(''A'', JStr ''foo'')])])
     = Inr (JStr ''foo'')"
  by (simp_all add: resolveRadio_def get_prop_obj normalizedMap_def fromEntries_def toLowerCase_def)

lemma resolveRadio_later_key_wins:
  "resolveRadio h (JStr ''A'')
     (JObj r [(''caseInsensitive'', JBool True),
              (''map'', JObj r' [(''A'', JStr ''first''), (''a'', JStr ''second'')])])
     = Inr (JStr ''second'')"
  by (simp add: resolveRadio_def get_prop_obj normalizedMap_def fromEntries_def toLowerCase_def)

text \<open>
  C7. The case-insensitive lookup tests the mapped value for truthiness
  (\<^verbatim>\<open>if (normalizedMap[lookupKey])\<close>, line 156), where the exact lookup tests it
  against \<^verbatim>\<open>undefined\<close> (line 161). A falsy mapped value that is found under the
  lower-cased key is therefore not returned: with the map \<^verbatim>\<open>{no: 0, yes: 1}\<close> the
  input \<^verbatim>\<open>No\<close> finds \<^verbatim>\<open>0\<close> and resolves to the raw \<^verbatim>\<open>No\<close>, while \<^verbatim>\<open>no\<close>
  resolves to \<^verbatim>\<open>0\<close> through the exact lookup and \<^verbatim>\<open>Yes\<close> to \<^verbatim>\<open>1\<close>.
\<close>

theorem resolveRadio_caseInsensitive_falsy:
  "map_of (normalizedMap (JObj 0 [(''type'', JStr ''radio''), (''caseInsensitive'', JBool True),
              (''map'', JObj 1 [(''no'', JNum 0), (''yes'', JNum 1)])])) (toLowerCase ''No'')
     = Some (JNum 0)
   \<and> resolveRadio utc_host (JStr ''No'')
        (JObj 0 [(''type'', JStr ''radio''), (''caseInsensitive'', JBool True),
                 (''map'', JObj 1 [(''no'', JNum 0), (''yes'', JNum 1)])])
     = Inr (JStr ''No'')
   \<and> resolveRadio utc_host (JStr ''no'')
        (JObj 0 [(''type'', JStr ''radio''), (''caseInsensitive'', JBool True),
                 (''map'', JObj 1 [(''no'', JNum 0), (''yes'', JNum 1)])])
     = Inr (JNum 0)
   \<and> resolveRadio utc_host (JStr ''Yes'')
        (JObj 0 [(''type'', JStr ''radio''), (''caseInsensitive'', JBool True),
                 (''map'', JObj 1 [(''no'', JNum 0), (''yes'', JNum 1)])])
     = Inr (JNum 1)"
  by (simp add: resolveRadio_def get_prop_obj normalizedMap_def fromEntries_def toLowerCase_def
      coalesce_def)

text \<open>The same input through the exported function.\<close>

lemma buildFieldValues_radio_falsy:
  "buildFieldValues utc_host
     (JObj 2 [(''f'', JObj 0 [(''path'', JStr ''x''), (''type'', JStr ''radio''),
                              (''caseInsensitive'', JBool True),
                              (''map'', JObj 1 [(''no'', JNum 0), (''yes'', JNum 1)])])])
     (JObj 3 [(''x'', JStr ''No'')])
   = Inr [(''f'', JStr ''No'')]"
  by (simp add: buildFieldValues_def resolveEntry_def baseValue_def getPathValue_def modifier_defs
      trim_def is_space_def resolveRadio_def get_prop_obj normalizedMap_def fromEntries_def
      toLowerCase_def coalesce_def)

subsection \<open>The precedence of paths over path\<close>









subsection \<open>Formatting\<close>



subsection \<open>Checkbox entries resolve to booleans\<close>

















end
